theory Spec2Isabelle
  imports Complex_Main
begin

section \<open>The quasi-harmonic entropy model of calc\_entropy.py\<close>

text \<open>
  The thermodynamic core of \<^verbatim>\<open>src/source/calc_entropy.py\<close> is embedded function by
  function. Python's binary64 floats are read as the real numbers they denote and the
  arithmetic as exact, except at the two places where rounding decides what kind of result a
  call has:

  \<^item> \<open>math.exp\<close> returns exactly \<open>1.0\<close> on an argument so close to 0 that the
    exponential differs from 1 by at most half the spacing of the floats next to \<open>1.0\<close>
    (\<open>math_exp\<close>); the difference \<open>ex - 1.0\<close> of \<open>ho_entropy\<close> is then \<open>0.0\<close>
    and the division by it raises;

  \<^item> \<open>1.0 - 1.0/x\<close> returns exactly \<open>1.0\<close> once \<open>1.0/x\<close> is at most half that
    spacing (\<open>sub_one_inv\<close>); the softened curvature of \<open>_keff_from_muE\<close> is then
    the unsoftened one.

  Every other rounding, infinities and NaN are outside the model. What is kept of the
  Python semantics is every exception the arithmetic can raise: a division by zero
  (\<open>ZeroDivisionError\<close>), \<open>math.sqrt\<close> or \<open>math.log\<close> outside their domain
  (\<open>ValueError\<close>), the range error of \<open>math.exp\<close> (\<open>OverflowError\<close>) and the
  ordering of a complex number, which a fractional power of a negative float produces
  (\<open>TypeError\<close>). A function that can raise returns \<open>error + 'a\<close>, \<open>Inl\<close> the error.
\<close>

subsection \<open>Errors\<close>

datatype error = ZeroDivisionError | ValueError | OverflowError | TypeError

definition bindE :: "error + 'a \<Rightarrow> ('a \<Rightarrow> error + 'b) \<Rightarrow> error + 'b" where
  "bindE m f = (case m of Inl e \<Rightarrow> Inl e | Inr v \<Rightarrow> f v)"

definition py_div :: "real \<Rightarrow> real \<Rightarrow> error + real" where
  \<comment> \<open>\<open>a / b\<close> on floats\<close>
  "py_div a b = (if b = 0 then Inl ZeroDivisionError else Inr (a / b))"

definition math_sqrt :: "real \<Rightarrow> error + real" where
  "math_sqrt y = (if y < 0 then Inl ValueError else Inr (sqrt y))"

definition math_log :: "real \<Rightarrow> error + real" where
  "math_log y = (if y \<le> 0 then Inl ValueError else Inr (ln y))"

definition exp_max :: real where
  \<comment> \<open>the logarithm of the largest binary64 float, to the digits Python prints:
      \<open>math.exp\<close> raises OverflowError for an argument beyond it\<close>
  "exp_max = 709782712893384 / 10 ^ 12"

definition math_exp :: "real \<Rightarrow> error + real" where
  \<comment> \<open>the floats next to \<open>1.0\<close> are \<open>1 - 2^-53\<close> and \<open>1 + 2^-52\<close>: for
      \<open>-2^-54 \<le> y \<le> 2^-53\<close> the exponential rounds to \<open>1.0\<close> itself\<close>
  "math_exp y =
     (if exp_max < y then Inl OverflowError
      else if - (1 / 2 ^ 54) \<le> y \<and> y \<le> 1 / 2 ^ 53 then Inr 1
      else Inr (exp y))"

subsection \<open>Constants\<close>

definition kB :: real where "kB = 1380649 / 10 ^ 29"
definition h :: real where "h = 662607015 / 10 ^ 42"
definition c_m :: real where "c_m = 299792458"
definition c_cm :: real where "c_cm = c_m * 100"
definition R :: real where "R = 831446261815324 / 10 ^ 14"
definition NA :: real where "NA = 602214076 * 10 ^ 15"
definition amu_kg :: real where "amu_kg = 166053906660 / 10 ^ 38"
definition bohr_m :: real where "bohr_m = 529177210903 / 10 ^ 22"
definition Eh_J :: real where "Eh_J = 43597447222071 / 10 ^ 31"
definition Eh_to_Jmol :: real where "Eh_to_Jmol = Eh_J * NA"

subsection \<open>Orientational softening\<close>

definition langevin :: "real \<Rightarrow> real" where
  \<comment> \<open>\<open>_langevin\<close>, its formulas read over the reals. The two divisions of the later
      branches have a divisor that the branch conditions keep away from zero
      (\<open>langevin_divisors\<close> below).\<close>
  "langevin x =
     (let ax = \<bar>x\<bar> in
      if ax < 1 / 10 ^ 3 then
        (let x2 = x * x in (x / 3) - (x * x2 / 45) + (2 * x * x2 * x2 / 945))
      else if ax > 50 then 1 - 1 / x
      else (1 / tanh x) - (1 / x))"

definition sub_one_inv :: "real \<Rightarrow> real" where
  \<comment> \<open>\<open>1.0 - 1.0/x\<close> as binary64 evaluates it: the quotient is absorbed by the
      subtraction when it is at most half the spacing of the floats next to \<open>1.0\<close>, that is
      \<open>2^-54\<close> below \<open>1.0\<close> (for \<open>x \<ge> 2^54\<close>) and \<open>2^-53\<close> above it
      (for \<open>x \<le> -2^53\<close>)\<close>
  "sub_one_inv x = (if 2 ^ 54 \<le> x \<or> x \<le> - (2 ^ 53) then 1 else 1 - 1 / x)"

definition langevin_float :: "real \<Rightarrow> real" where
  \<comment> \<open>\<open>_langevin\<close> again, its asymptotic branch with the value binary64 gives it\<close>
  "langevin_float x =
     (let ax = \<bar>x\<bar> in
      if ax < 1 / 10 ^ 3 then
        (let x2 = x * x in (x / 3) - (x * x2 / 45) + (2 * x * x2 * x2 / 945))
      else if ax > 50 then sub_one_inv x
      else (1 / tanh x) - (1 / x))"

definition keff_from_muE :: "real \<Rightarrow> real \<Rightarrow> error + real" where
  \<comment> \<open>\<open>_keff_from_muE\<close>; the product with a factor of exactly \<open>1.0\<close> is exact\<close>
  "keff_from_muE muE_J T =
     (if muE_J \<le> 0 then Inr 0
      else bindE (py_div muE_J (kB * T)) (\<lambda>x. Inr (muE_J * langevin_float x)))"

subsection \<open>Vector and matrix primitives\<close>

type_synonym vec3 = "real \<times> real \<times> real"
type_synonym mat3 = "vec3 \<times> vec3 \<times> vec3"

fun dot3 :: "vec3 \<Rightarrow> vec3 \<Rightarrow> real" where
  "dot3 (a0, a1, a2) (b0, b1, b2) = a0 * b0 + a1 * b1 + a2 * b2"

fun matvec3 :: "mat3 \<Rightarrow> vec3 \<Rightarrow> vec3" where
  "matvec3 ((m00, m01, m02), (m10, m11, m12), (m20, m21, m22)) (v0, v1, v2) =
     (m00 * v0 + m01 * v1 + m02 * v2,
      m10 * v0 + m11 * v1 + m12 * v2,
      m20 * v0 + m21 * v1 + m22 * v2)"

definition norm3 :: "vec3 \<Rightarrow> real" where
  \<comment> \<open>\<open>math.sqrt\<close> of a sum of squares: its argument is never negative
      (\<open>dot3_self_nonneg\<close> below)\<close>
  "norm3 v = sqrt (dot3 v v)"

subsection \<open>Harmonic-oscillator entropy\<close>

definition ho_try :: "real \<Rightarrow> error + real" where
  \<comment> \<open>the body of the \<open>try\<close> block of \<open>ho_entropy\<close>, operands evaluated left to right\<close>
  "ho_try x =
     bindE (math_exp x) (\<lambda>ex.
     bindE (py_div x (ex - 1)) (\<lambda>d.
     bindE (math_exp (- x)) (\<lambda>emx.
     bindE (math_log (1 - emx)) (\<lambda>l.
     Inr (R * (d - l))))))"

definition ho_entropy :: "real \<Rightarrow> real \<Rightarrow> error + real" where
  \<comment> \<open>\<open>except OverflowError: return 0.0\<close> catches that error alone; \<open>x\<close> is computed
      before the \<open>try\<close>\<close>
  "ho_entropy nu_cm T =
     (if nu_cm \<le> 0 then Inr 0
      else bindE (py_div (h * c_cm * nu_cm) (kB * T)) (\<lambda>x.
        if ho_try x = Inl OverflowError then Inr 0 else ho_try x))"

subsection \<open>Quasi-translational frequency\<close>

datatype pynum = PyFloat real | PyComplex

definition py_pow :: "real \<Rightarrow> real \<Rightarrow> pynum" where
  \<comment> \<open>\<open>x ** y\<close> on floats for the exponent \<open>1.0/3.0\<close> of the source (positive, not
      integral): Python 3 returns a complex number for a negative base. The complex value
      itself is not tracked.\<close>
  "py_pow x y = (if x < 0 then PyComplex else PyFloat (x powr y))"

fun py_sub :: "pynum \<Rightarrow> pynum \<Rightarrow> pynum" where
  "py_sub (PyFloat a) (PyFloat b) = PyFloat (a - b)"
| "py_sub _ _ = PyComplex"

fun py_mul_float :: "pynum \<Rightarrow> real \<Rightarrow> pynum" where
  "py_mul_float (PyFloat a) b = PyFloat (a * b)"
| "py_mul_float PyComplex b = PyComplex"

fun py_cube :: "pynum \<Rightarrow> pynum" where
  \<comment> \<open>\<open>z ** 3\<close>, an integer exponent\<close>
  "py_cube (PyFloat a) = PyFloat (a ^ 3)"
| "py_cube PyComplex = PyComplex"

fun py_le_float :: "pynum \<Rightarrow> real \<Rightarrow> error + bool" where
  \<comment> \<open>\<open>z <= b\<close>: complex numbers are not ordered\<close>
  "py_le_float (PyFloat a) b = Inr (a \<le> b)"
| "py_le_float PyComplex b = Inl TypeError"

definition vfree_bohr3 :: "real \<Rightarrow> real \<Rightarrow> pynum" where
  "vfree_bohr3 V12 V10 = py_cube (py_sub (py_pow V12 (1 / 3)) (py_pow V10 (1 / 3)))"

definition nu_trans_cm :: "real \<Rightarrow> real \<Rightarrow> real \<Rightarrow> error + real" where
  "nu_trans_cm Vfree mw_amu T =
     (let L_m = py_mul_float (py_pow (Vfree * 3 / (4 * pi)) (1 / 3)) bohr_m;
          m_kg = mw_amu * amu_kg
      in bindE (py_le_float L_m 0) (\<lambda>degenerate.
           if degenerate then Inr 0
           else case L_m of
             PyComplex \<Rightarrow> Inl TypeError
           | PyFloat L \<Rightarrow>
               bindE (py_div (2 * pi * kB * T) m_kg) (\<lambda>r.
               bindE (math_sqrt r) (\<lambda>s.
                 let omega = s * 1 / L;
                     nu_hz = omega / (2 * pi)
                 in Inr (nu_hz / c_cm)))))"

subsection \<open>Quasi-rotational frequencies\<close>

definition inertia_from_Bcm :: "real \<Rightarrow> real" where
  "inertia_from_Bcm Bcm =
     (if Bcm = 0 then 10 ^ 99
      else (let B_m = Bcm * 100 in h / (8 * pi ^ 2 * c_m * B_m)))"

definition wavenumber_from_I :: "real \<Rightarrow> real \<Rightarrow> real \<Rightarrow> error + real" where
  \<comment> \<open>the closure variables \<open>k_eff_J\<close> and \<open>nu_floor_cm\<close> are its first two arguments\<close>
  "wavenumber_from_I k_eff_J nu_floor_cm I =
     (if I = 0 then Inr 0
      else bindE (math_sqrt (k_eff_J / I)) (\<lambda>s.
        let nu_hz = (1 / (2 * pi)) * s;
            nu_cm = nu_hz / c_cm
        in if nu_floor_cm > 0 \<and> nu_cm < nu_floor_cm then Inr nu_floor_cm
           else Inr nu_cm))"

fun nu_rot_cm ::
  "vec3 \<Rightarrow> vec3 \<Rightarrow> vec3 \<Rightarrow> mat3 \<Rightarrow> real \<Rightarrow> real \<Rightarrow> bool \<Rightarrow> error + vec3" where
  "nu_rot_cm (A_cm, B_cm, C_cm) (l0, l1, l2) (g0, g1, g2) alpha_au T nu_floor_cm use_avg_curv =
     (let mu_star = (l0 - g0, l1 - g1, l2 - g2);
          mu_star_norm = norm3 mu_star
      in if mu_star_norm = 0 then Inr (0, 0, 0)
         else
           let u = (fst mu_star / mu_star_norm,
                    fst (snd mu_star) / mu_star_norm,
                    snd (snd mu_star) / mu_star_norm);
               au = matvec3 alpha_au u;
               P = dot3 u au
           in if P \<le> 0 then Inr (0, 0, 0)
              else
                let muE_Eh = mu_star_norm ^ 2 / P;
                    muE_J = muE_Eh * Eh_J
                in bindE (if use_avg_curv then keff_from_muE muE_J T else Inr muE_J)
                     (\<lambda>k_eff_J.
                       let Ia = inertia_from_Bcm A_cm;
                           Ib = inertia_from_Bcm B_cm;
                           Ic = inertia_from_Bcm C_cm
                       in bindE (wavenumber_from_I k_eff_J nu_floor_cm Ia) (\<lambda>a.
                          bindE (wavenumber_from_I k_eff_J nu_floor_cm Ib) (\<lambda>b.
                          bindE (wavenumber_from_I k_eff_J nu_floor_cm Ic) (\<lambda>c.
                          Inr (a, b, c))))))"

text \<open>
  The two guards of \<open>nu_rot_cm\<close> that return \<open>(0, 0, 0)\<close> before any wavenumber is
  computed: a zero dipole difference, or a non-positive polarizability projection.
\<close>

fun degenerate_dipole :: "vec3 \<Rightarrow> vec3 \<Rightarrow> mat3 \<Rightarrow> bool" where
  "degenerate_dipole (l0, l1, l2) (g0, g1, g2) alpha_au =
     (let mu_star = (l0 - g0, l1 - g1, l2 - g2);
          mu_star_norm = norm3 mu_star;
          u = (fst mu_star / mu_star_norm,
               fst (snd mu_star) / mu_star_norm,
               snd (snd mu_star) / mu_star_norm)
      in mu_star_norm = 0 \<or> dot3 u (matvec3 alpha_au u) \<le> 0)"

text \<open>
  The value of the local \<open>k_eff_J\<close> of \<open>nu_rot_cm\<close> on an input that passes the two
  guards (lines 188 to 202 of the source).
\<close>

fun k_eff_J_of :: "vec3 \<Rightarrow> vec3 \<Rightarrow> mat3 \<Rightarrow> real \<Rightarrow> bool \<Rightarrow> error + real" where
  "k_eff_J_of (l0, l1, l2) (g0, g1, g2) alpha_au T use_avg_curv =
     (let mu_star = (l0 - g0, l1 - g1, l2 - g2);
          mu_star_norm = norm3 mu_star;
          u = (fst mu_star / mu_star_norm,
               fst (snd mu_star) / mu_star_norm,
               snd (snd mu_star) / mu_star_norm);
          au = matvec3 alpha_au u;
          P = dot3 u au;
          muE_Eh = mu_star_norm ^ 2 / P;
          muE_J = muE_Eh * Eh_J
      in if use_avg_curv then keff_from_muE muE_J T else Inr muE_J)"

text \<open>The floor as the specification words it: a wavenumber below the floor is reported as
  exactly the floor.\<close>

definition clamp_floor_spec :: "real \<Rightarrow> real \<Rightarrow> real" where
  "clamp_floor_spec f nu = (if nu < f then f else nu)"

text \<open>The raw wavenumber as section 4.5 of the specification words it:
  \<open>(1 / 2 pi) sqrt (k_eff / I)\<close>, in wavenumber units.\<close>

definition raw_wavenumber_spec :: "real \<Rightarrow> real \<Rightarrow> error + real" where
  "raw_wavenumber_spec k_eff I =
     bindE (math_sqrt (k_eff / I)) (\<lambda>s. Inr ((1 / (2 * pi)) * s / c_cm))"

subsection \<open>Isomer entropy\<close>

fun isomer_loop :: "real \<Rightarrow> real \<Rightarrow> real list \<Rightarrow> real \<times> real \<Rightarrow> error + real \<times> real" where
  \<comment> \<open>the \<open>for\<close> loop over the values, with the accumulators \<open>q\<close> and \<open>num\<close>\<close>
  "isomer_loop Emin T [] (q, num) = Inr (q, num)"
| "isomer_loop Emin T (Ei # rest) (q, num) =
     (let dE = (Ei - Emin) * Eh_to_Jmol
      in bindE (py_div (- dE) (R * T)) (\<lambda>a.
         bindE (math_exp a) (\<lambda>w.
         isomer_loop Emin T rest (q + w, num + dE * w))))"

definition S_isomer_JmolK :: "(string \<times> real) list \<Rightarrow> real \<Rightarrow> error + real" where
  \<comment> \<open>the dictionary is the list of its items in insertion order\<close>
  "S_isomer_JmolK E_Eh T =
     (if E_Eh = [] then Inr 0
      else
        let Emin = min_list (map snd E_Eh)
        in bindE (isomer_loop Emin T (map snd E_Eh) (0, 0)) (\<lambda>(q, num).
             if q = 0 then Inr 0
             else
               let avg = num / q
               in bindE (math_log q) (\<lambda>lq.
                  bindE (py_div avg (R * T)) (\<lambda>a.
                  Inr (R * (lq + a))))))"

text \<open>
  The entropy of one oscillator in units of \<open>R\<close>, as a function of
  \<open>x = h c nu / (kB T)\<close>: the expression \<open>ho_try\<close> evaluates when nothing is raised
  and \<open>math.exp\<close> is not rounded to \<open>1.0\<close>.
\<close>

definition ho_fun :: "real \<Rightarrow> real" where
  "ho_fun x = x / (exp x - 1) - ln (1 - exp (- x))"

text \<open>The softening function as section 4.1 of the specification words it.\<close>

definition softening_spec :: "real \<Rightarrow> real" where
  "softening_spec x =
     (if \<bar>x\<bar> < 1 / 1000 then x / 3 - x ^ 3 / 45 + 2 * x ^ 5 / 945
      else if \<bar>x\<bar> > 50 then 1 - 1 / x
      else 1 / tanh x - 1 / x)"

section \<open>Properties\<close>

lemma langevin_divisors:
  "\<not> \<bar>x\<bar> < 1 / 10 ^ 3 \<Longrightarrow> x \<noteq> 0 \<and> tanh x \<noteq> (0::real)"
  by auto

lemma langevin_eq_spec: "langevin x = softening_spec x"
  by (simp add: langevin_def softening_spec_def Let_def power3_eq_cube power_def numeral_eq_Suc)

text \<open>
  C5. The softening function computes the branch formulas of section 4.1: the fifth-order
  series for \<open>|x| < 1e-3\<close>, \<open>1 - 1/x\<close> for \<open>|x| > 50\<close>, and \<open>1/tanh x - 1/x\<close>
  otherwise, the branch depending on \<open>|x|\<close> only.
\<close>

theorem langevin_branches:
  "langevin x = softening_spec x
   \<and> langevin x =
       (if \<bar>x\<bar> < 1 / 1000 then x / 3 - x ^ 3 / 45 + 2 * x ^ 5 / 945
        else if 50 < \<bar>x\<bar> then 1 - 1 / x
        else 1 / tanh x - 1 / x)"
  by (simp add: langevin_def softening_spec_def Let_def power3_eq_cube power_def numeral_eq_Suc)

subsection \<open>Bounds on the softening function\<close>

lemma exp_gt_linear:
  assumes "0 < (x::real)"
  shows "1 + x < exp x"
proof -
  have "0 < x\<^sup>2 / 2" using assms by simp
  moreover have "1 + x + x\<^sup>2 / 2 \<le> exp x"
    using assms by (intro exp_lower_Taylor_quadratic) simp
  ultimately show ?thesis by linarith
qed

lemma tanh_exp2: "tanh (x::real) = (exp (2 * x) - 1) / (exp (2 * x) + 1)"
proof -
  define e where "e = exp (2 * x)"
  have e: "0 < e" by (simp add: e_def)
  have m: "exp (- 2 * x) = 1 / e" by (simp add: e_def exp_minus divide_simps)
  have "tanh x = (1 - 1 / e) / (1 + 1 / e)" using tanh_real_altdef [of x] m by simp
  also have "\<dots> = ((e - 1) / e) / ((e + 1) / e)" using e by (simp add: field_simps)
  also have "\<dots> = (e - 1) / (e + 1)" using e by simp
  finally show ?thesis by (simp add: e_def)
qed

lemma coth_bound: assumes "0 < (x::real)" shows "1 / tanh x - 1 / x < 1"
proof -
  have e: "1 + 2 * x < exp (2 * x)" using exp_gt_linear [of "2 * x"] assms by simp
  have p: "0 < exp (2 * x) - 1" using e assms by simp
  have "1 / tanh x = (exp (2 * x) + 1) / (exp (2 * x) - 1)" by (simp add: tanh_exp2)
  also have "\<dots> = 1 + 2 / (exp (2 * x) - 1)" using p by (simp add: field_simps)
  finally have c: "1 / tanh x = 1 + 2 / (exp (2 * x) - 1)" .
  have "2 / (exp (2 * x) - 1) < 1 / x"
    using p assms e by (simp add: field_simps)
  then show ?thesis using c by simp
qed

lemma prod_unit: "0 < (a::real) \<Longrightarrow> a < 1 \<Longrightarrow> 0 < b \<Longrightarrow> b < 1 \<Longrightarrow> 0 < a * b \<and> a * b < 1"
  using mult_strict_mono [of a 1 b 1] by simp

lemma series_lt_1: assumes "0 < (x::real)" "x < 1 / 10 ^ 3"
  shows "(x / 3) - (x * (x * x) / 45) + (2 * x * (x * x) * (x * x) / 945) < 1"
proof -
  define p where "p = x * x"
  have x1: "x < 1" using assms by simp
  have p: "0 < p" "p < 1" using prod_unit [of x x] assms x1 unfolding p_def by simp_all
  define c where "c = x * p"
  have c: "0 < c" "c < 1" using prod_unit [of x p] assms x1 p unfolding c_def by simp_all
  define d where "d = c * p"
  have d: "0 < d" "d < 1" using prod_unit [of c p] c p unfolding d_def by simp_all
  have "2 * x * p * p = 2 * d" by (simp add: d_def c_def)
  then have "(x / 3) - (x * p / 45) + (2 * x * p * p / 945) = x / 3 - c / 45 + 2 * d / 945"
    by (simp add: c_def)
  also have "\<dots> < 1" using x1 c d by simp
  finally show ?thesis by (simp add: p_def)
qed

lemma langevin_lt_1: assumes "0 < x" shows "langevin x < 1"
proof -
  consider "x < 1 / 10 ^ 3" | "50 < x" | "\<not> x < 1 / 10 ^ 3" "\<not> 50 < x" by blast
  then show ?thesis
  proof cases
    case 1
    then show ?thesis using assms series_lt_1 [OF assms 1]
      by (simp add: langevin_def Let_def)
  next
    case 2
    then show ?thesis using assms by (simp add: langevin_def Let_def)
  next
    case 3
    then show ?thesis using assms coth_bound [OF assms] by (simp add: langevin_def Let_def)
  qed
qed

lemma kB_pos: "0 < kB" by (simp add: kB_def)

text \<open>
  The two readings of \<open>_langevin\<close> agree for \<open>-2^53 < x < 2^54\<close>; outside, the
  float value is exactly 1.
\<close>

lemma langevin_float_eq:
  "langevin_float x = (if 2 ^ 54 \<le> x \<or> x \<le> - (2 ^ 53) then 1 else langevin x)"
  by (auto simp: langevin_float_def langevin_def sub_one_inv_def Let_def)

lemma keff_from_muE_value:
  assumes "0 < muE_J" "0 < T"
  shows "keff_from_muE muE_J T = Inr (muE_J * langevin_float (muE_J / (kB * T)))"
proof -
  have "kB * T \<noteq> 0" using assms kB_pos by simp
  then show ?thesis using assms by (simp add: keff_from_muE_def py_div_def bindE_def)
qed

text \<open>
  C4. \<open>_keff_from_muE\<close> returns 0 for every \<open>muE \<le> 0\<close> (whatever the
  temperature). For \<open>muE > 0\<close> and \<open>T > 0\<close> it returns a value that is at most
  \<open>muE\<close>. As long as \<open>x = muE / (kB * T)\<close> is below \<open>2^54\<close> that value is
  \<open>muE * L x\<close>, with \<open>L\<close> the softening function of section 4.1, and it is strictly
  below \<open>muE\<close>; from \<open>x = 2^54\<close> on, \<open>1.0 - 1.0/x\<close> is exactly \<open>1.0\<close> and the
  value is \<open>muE\<close> itself.
\<close>

theorem keff_from_muE_softens:
  "(muE_J \<le> 0 \<longrightarrow> keff_from_muE muE_J T = Inr 0)
   \<and> (0 < muE_J \<and> 0 < T \<longrightarrow>
        (\<exists>k. keff_from_muE muE_J T = Inr k \<and> k \<le> muE_J)
        \<and> (muE_J / (kB * T) < 2 ^ 54 \<longrightarrow>
             keff_from_muE muE_J T = Inr (muE_J * softening_spec (muE_J / (kB * T)))
             \<and> muE_J * softening_spec (muE_J / (kB * T)) < muE_J)
        \<and> (2 ^ 54 \<le> muE_J / (kB * T) \<longrightarrow> keff_from_muE muE_J T = Inr muE_J))"
proof (intro conjI impI)
  assume "muE_J \<le> 0"
  then show "keff_from_muE muE_J T = Inr 0" by (simp add: keff_from_muE_def)
next
  assume a: "0 < muE_J \<and> 0 < T"
  let ?x = "muE_J / (kB * T)"
  have x: "0 < ?x" using a kB_pos by simp
  have "langevin ?x < 1" using x by (rule langevin_lt_1)
  then have "langevin_float ?x \<le> 1" by (simp add: langevin_float_eq)
  then have "muE_J * langevin_float ?x \<le> muE_J * 1"
    using a by (intro mult_left_mono) simp_all
  then show "\<exists>k. keff_from_muE muE_J T = Inr k \<and> k \<le> muE_J"
    using a keff_from_muE_value [of muE_J T] by simp
next
  assume a: "0 < muE_J \<and> 0 < T" and b: "muE_J / (kB * T) < 2 ^ 54"
  let ?x = "muE_J / (kB * T)"
  have x: "0 < ?x" using a kB_pos by simp
  have "langevin_float ?x = langevin ?x" using x b by (simp add: langevin_float_eq)
  then show "keff_from_muE muE_J T = Inr (muE_J * softening_spec ?x)"
    using a keff_from_muE_value [of muE_J T] by (simp add: langevin_eq_spec)
next
  assume a: "0 < muE_J \<and> 0 < T" and b: "muE_J / (kB * T) < 2 ^ 54"
  then have "0 < muE_J / (kB * T)" using kB_pos by simp
  then have "langevin (muE_J / (kB * T)) < 1" by (rule langevin_lt_1)
  then have "muE_J * langevin (muE_J / (kB * T)) < muE_J * 1"
    using a by (intro mult_strict_left_mono) simp_all
  then show "muE_J * softening_spec (muE_J / (kB * T)) < muE_J"
    by (simp add: langevin_eq_spec)
next
  assume a: "0 < muE_J \<and> 0 < T" and b: "2 ^ 54 \<le> muE_J / (kB * T)"
  then have "langevin_float (muE_J / (kB * T)) = 1" by (simp add: langevin_float_eq)
  then show "keff_from_muE muE_J T = Inr muE_J"
    using a keff_from_muE_value [of muE_J T] by simp
qed

theorem keff_from_muE_softens_witness:
  "(- 1 :: real) \<le> 0 \<and> keff_from_muE (- 1) 300 = Inr 0
   \<and> (0::real) < 1 / 10 ^ 20 \<and> (0::real) < 300
   \<and> 1 / 10 ^ 20 / (kB * 300) < 2 ^ 54
   \<and> keff_from_muE (1 / 10 ^ 20) 300
       = Inr (1 / 10 ^ 20 * softening_spec (1 / 10 ^ 20 / (kB * 300)))
   \<and> 1 / 10 ^ 20 * softening_spec (1 / 10 ^ 20 / (kB * 300)) < 1 / 10 ^ 20
   \<and> (0::real) < 1 \<and> 2 ^ 54 \<le> 1 / (kB * 300)
   \<and> keff_from_muE 1 300 = Inr 1"
proof -
  have s: "1 / 10 ^ 20 / (kB * 300) < 2 ^ 54" by (simp add: kB_def)
  have l: "2 ^ 54 \<le> 1 / (kB * 300)" by (simp add: kB_def)
  show ?thesis
    using keff_from_muE_softens [of "- 1" 300] keff_from_muE_softens [of "1 / 10 ^ 20" 300]
      keff_from_muE_softens [of 1 300] s l
    by simp
qed

text \<open>
  The claim as stated has the result strictly below \<open>muE\<close> for every \<open>muE > 0\<close> and
  \<open>T > 0\<close>. At \<open>muE = 1\<close> and \<open>T = 300\<close>, \<open>x = 1 / (kB * 300)\<close> is about
  \<open>2.4e20\<close>, the asymptotic branch returns exactly \<open>1.0\<close>, and the result is
  \<open>muE\<close> itself.
\<close>

theorem keff_from_muE_not_below_muE:
  "(0::real) < 1 \<and> (0::real) < 300 \<and> keff_from_muE 1 300 = Inr 1 \<and> \<not> (1::real) < 1"
  by (simp add: keff_from_muE_def py_div_def bindE_def langevin_float_def sub_one_inv_def
      kB_def Let_def)

text \<open>
  C1. The softening function is claimed to be odd on all three branches. The asymptotic
  branch is chosen on \<open>|x| > 50\<close> but returns \<open>1 - 1/x\<close> for either sign, although
  \<open>coth x\<close> tends to \<open>-1\<close> for large negative \<open>x\<close>: at \<open>x = -60\<close> the function
  returns \<open>61/60\<close>, not \<open>-(59/60) = - langevin 60\<close>. The docstring of the source
  promises \<open>L(x) = coth(x) - 1/x\<close>, which is odd. The evaluation at the failing input:
\<close>

theorem langevin_not_odd_at_minus_60:
  "langevin (- 60) = 61 / 60 \<and> - langevin 60 = - (59 / 60)"
  by (simp add: langevin_def)

text \<open>On the series and the exact branch the function is odd, and it vanishes at 0.\<close>

lemma langevin_odd_within_50: "\<bar>x\<bar> \<le> 50 \<Longrightarrow> langevin (- x) = - langevin x"
  by (simp add: langevin_def Let_def)

lemma langevin_zero: "langevin 0 = 0"
  by (simp add: langevin_def)

text \<open>The rounding of the asymptotic branch plays no part at this input.\<close>

lemma langevin_float_at_minus_60: "langevin_float (- 60) = 61 / 60"
  by (simp add: langevin_float_def sub_one_inv_def)

subsection \<open>The harmonic-oscillator entropy\<close>






lemma exp_max_pos: "0 < exp_max" by (simp add: exp_max_def)

lemma rounded_below_exp_max: "1 / 2 ^ 53 < exp_max" by (simp add: exp_max_def)

lemma ho_try_value:
  assumes "1 / 2 ^ 53 < x" "x \<le> exp_max"
  shows "ho_try x = Inr (R * ho_fun x)"
proof -
  have x: "0 < x" using assms(1) by (rule less_trans [rotated]) simp
  have m: "\<not> - (1 / 2 ^ 54) \<le> - x" using assms(1) by simp
  have n: "\<not> exp_max < - x" using x exp_max_pos by simp
  have e1: "math_exp x = Inr (exp x)" using assms by (simp add: math_exp_def)
  have e2: "math_exp (- x) = Inr (exp (- x))" using m n by (simp add: math_exp_def)
  show ?thesis using x
    by (simp add: ho_try_def e1 e2 py_div_def math_log_def bindE_def ho_fun_def)
qed

lemma ho_try_overflow:
  assumes "exp_max < x"
  shows "ho_try x = Inl OverflowError"
  using assms by (simp add: ho_try_def math_exp_def bindE_def)

lemma ho_try_rounded:
  assumes "0 < x" "x \<le> 1 / 2 ^ 53"
  shows "ho_try x = Inl ZeroDivisionError"
proof -
  have "\<not> exp_max < x" using assms(2) by (simp add: exp_max_def)
  then have "math_exp x = Inr 1" using assms by (simp add: math_exp_def)
  then show ?thesis by (simp add: ho_try_def py_div_def bindE_def)
qed

lemma ho_x_pos: "0 < nu \<Longrightarrow> 0 < T \<Longrightarrow> 0 < h * c_cm * nu / (kB * T)"
  by (simp add: h_def c_cm_def c_m_def kB_def)

lemma ho_entropy_value:
  assumes "0 < nu" "0 < T"
  shows "ho_entropy nu T =
     (if h * c_cm * nu / (kB * T) \<le> 1 / 2 ^ 53 then Inl ZeroDivisionError
      else if h * c_cm * nu / (kB * T) \<le> exp_max
        then Inr (R * ho_fun (h * c_cm * nu / (kB * T)))
      else Inr 0)"
proof -
  let ?x = "h * c_cm * nu / (kB * T)"
  have d: "kB * T \<noteq> 0" using assms by (simp add: kB_def)
  have x: "0 < ?x" using assms by (rule ho_x_pos)
  have u: "ho_entropy nu T = (if ho_try ?x = Inl OverflowError then Inr 0 else ho_try ?x)"
    using assms d by (simp add: ho_entropy_def py_div_def bindE_def)
  consider "?x \<le> 1 / 2 ^ 53" | "1 / 2 ^ 53 < ?x" "?x \<le> exp_max" | "exp_max < ?x"
    by linarith
  then show ?thesis
  proof cases
    case 1
    then show ?thesis using u ho_try_rounded [OF x 1] by simp
  next
    case 2
    then show ?thesis using u ho_try_value [OF 2] by simp
  next
    case 3
    have "\<not> ?x \<le> 1 / 2 ^ 53" using 3 rounded_below_exp_max by linarith
    then show ?thesis using u ho_try_overflow [OF 3] 3 by simp
  qed
qed

text \<open>
  A wavenumber so small that \<open>math.exp x\<close> is \<open>1.0\<close> makes \<open>ho_entropy\<close> raise:
  the handler catches OverflowError only.
\<close>

lemma ho_entropy_rounded_raises:
  assumes "0 < nu" "0 < T" "h * c_cm * nu / (kB * T) \<le> 1 / 2 ^ 53"
  shows "ho_entropy nu T = Inl ZeroDivisionError"
  using ho_entropy_value [OF assms(1,2)] assms(3) by simp

lemma ho_entropy_raises_at_1e_14: "ho_entropy (1 / 10 ^ 14) 300 = Inl ZeroDivisionError"
proof -
  have "h * c_cm * (1 / 10 ^ 14) / (kB * 300) \<le> 1 / 2 ^ 53"
    by (simp add: h_def c_cm_def c_m_def kB_def)
  then show ?thesis by (intro ho_entropy_rounded_raises) simp_all
qed

lemma R_pos: "0 < R" by (simp add: R_def)




text \<open>
  C9. \<open>ho_entropy\<close> returns 0 for every \<open>nu \<le> 0\<close>, and when \<open>math.exp x\<close> raises
  OverflowError (for \<open>x = h c nu / (kB T)\<close> with \<open>nu, T > 0\<close>) the handler returns 0: in
  both cases the result is a value, not an error.
\<close>

theorem ho_entropy_degenerate_and_overflow:
  "(nu \<le> 0 \<longrightarrow> ho_entropy nu T = Inr 0)
   \<and> (0 < nu \<and> 0 < T \<and> math_exp (h * c_cm * nu / (kB * T)) = Inl OverflowError
        \<longrightarrow> ho_entropy nu T = Inr 0)"
proof (intro conjI impI)
  assume "nu \<le> 0"
  then show "ho_entropy nu T = Inr 0" by (simp add: ho_entropy_def)
next
  assume a: "0 < nu \<and> 0 < T \<and> math_exp (h * c_cm * nu / (kB * T)) = Inl OverflowError"
  then have o: "exp_max < h * c_cm * nu / (kB * T)"
    by (auto simp: math_exp_def split: if_splits)
  then have "\<not> h * c_cm * nu / (kB * T) \<le> 1 / 2 ^ 53"
    using rounded_below_exp_max by linarith
  then show "ho_entropy nu T = Inr 0" using ho_entropy_value [of nu T] a o by simp
qed

theorem ho_entropy_degenerate_and_overflow_witness:
  "(- 1 :: real) \<le> 0 \<and> ho_entropy (- 1) 300 = Inr 0
   \<and> (0::real) < 10 ^ 6 \<and> (0::real) < 1
   \<and> math_exp (h * c_cm * 10 ^ 6 / (kB * 1)) = Inl OverflowError
   \<and> ho_entropy (10 ^ 6) 1 = Inr 0"
proof -
  have m: "math_exp (h * c_cm * 10 ^ 6 / (kB * 1)) = Inl OverflowError"
    by (simp add: math_exp_def h_def c_cm_def c_m_def kB_def exp_max_def)
  show ?thesis
    using ho_entropy_degenerate_and_overflow [of "- 1" 300]
      ho_entropy_degenerate_and_overflow [of "10 ^ 6" 1] m
    by simp
qed

subsection \<open>The isomer entropy\<close>

lemma Eh_to_Jmol_pos: "0 < Eh_to_Jmol" by (simp add: Eh_to_Jmol_def Eh_J_def NA_def)
lemma exp_max_nonneg: "0 \<le> exp_max" by (simp add: exp_max_def)

lemma min_list_shift:
  "xs \<noteq> [] \<Longrightarrow> min_list (map (\<lambda>e. e + c) xs) = min_list xs + (c::real)"
proof (induction xs)
  case Nil
  then show ?case by simp
next
  case (Cons x xs)
  show ?case
  proof (cases xs)
    case Nil
    then show ?thesis by simp
  next
    case (Cons y ys)
    then have "min_list (map (\<lambda>e. e + c) xs) = min_list xs + c"
      using Cons.IH by simp
    then show ?thesis using Cons by (simp add: min_add_distrib_left)
  qed
qed

lemma isomer_loop_shift:
  "isomer_loop (Emin + c) T (map (\<lambda>e. e + c) vs) acc = isomer_loop Emin T vs acc"
proof (induction vs arbitrary: acc)
  case Nil
  then show ?case by (cases acc) simp
next
  case (Cons v vs)
  obtain q num where acc: "acc = (q, num)" by (cases acc)
  show ?case unfolding acc using Cons.IH
    by (simp add: Let_def bindE_def split: sum.splits)
qed

lemma map_snd_shift:
  "map snd (map (\<lambda>(k, e). (k, e + c)) E) = map (\<lambda>e. e + c) (map snd E)"
  by (induction E) auto

text \<open>
  C6. The isomer entropy is invariant under adding one constant to every energy of the
  mapping: the energies enter only through \<open>Ei - Emin\<close>. It holds for every
  temperature, in particular for \<open>T > 0\<close>, and also when the call raises.
\<close>

theorem S_isomer_offset_invariant:
  "S_isomer_JmolK (map (\<lambda>(k, e). (k, e + c)) E_Eh) T = S_isomer_JmolK E_Eh T"
proof (cases "E_Eh = []")
  case True
  then show ?thesis by (simp add: S_isomer_JmolK_def)
next
  case False
  then have ne: "map snd E_Eh \<noteq> []" by simp
  have ne': "map (\<lambda>(k, e). (k, e + c)) E_Eh \<noteq> []" using False by simp
  have m: "min_list (map snd (map (\<lambda>(k, e). (k, e + c)) E_Eh)) = min_list (map snd E_Eh) + c"
    by (simp only: map_snd_shift min_list_shift [OF ne])
  have l: "isomer_loop (min_list (map snd E_Eh) + c) T
             (map snd (map (\<lambda>(k, e). (k, e + c)) E_Eh)) (0, 0)
           = isomer_loop (min_list (map snd E_Eh)) T (map snd E_Eh) (0, 0)"
    by (simp only: map_snd_shift isomer_loop_shift)
  show ?thesis
    by (simp only: S_isomer_JmolK_def False ne' if_False Let_def m l)
qed

text \<open>
  C7. For a mapping with exactly one entry, whatever its key and energy, and \<open>T > 0\<close>,
  \<open>S_isomer_JmolK\<close> returns exactly 0; for the empty mapping it returns 0.
\<close>

theorem S_isomer_single_or_empty:
  "(0 < T \<longrightarrow> S_isomer_JmolK [(k, e)] T = Inr 0) \<and> S_isomer_JmolK [] T = Inr 0"
proof -
  have "0 < T \<Longrightarrow> R * T \<noteq> 0" using R_pos by simp
  then show ?thesis using exp_max_nonneg
    by (simp add: S_isomer_JmolK_def Let_def py_div_def math_exp_def math_log_def bindE_def)
qed

theorem S_isomer_single_or_empty_witness:
  "(0::real) < 300 \<and> S_isomer_JmolK [(''001-a'', - 100)] 300 = Inr 0
   \<and> S_isomer_JmolK [] 300 = Inr 0"
  using S_isomer_single_or_empty [of 300 "''001-a''" "- 100"] by simp

lemma isomer_loop_bounds:
  assumes "0 < T" "\<forall>v \<in> set vs. Emin \<le> v"
  shows "\<exists>q' num'. isomer_loop Emin T vs (q, num) = Inr (q', num')
           \<and> q + (if Emin \<in> set vs then 1 else 0) \<le> q' \<and> q \<le> q' \<and> num \<le> num'"
  using assms(2)
proof (induction vs arbitrary: q num)
  case Nil
  then show ?case by simp
next
  case (Cons v vs)
  define dE where "dE = (v - Emin) * Eh_to_Jmol"
  define w where
    "w = (if - (1 / 2 ^ 54) \<le> - dE / (R * T) then 1 else exp (- dE / (R * T)))"
  have rt: "0 < R * T" using assms(1) R_pos by simp
  have dE0: "0 \<le> dE" using Cons.prems Eh_to_Jmol_pos by (simp add: dE_def)
  have a0: "- dE / (R * T) \<le> 0" using dE0 rt by (simp add: divide_nonpos_pos)
  then have no_ovf: "\<not> exp_max < - dE / (R * T)" using exp_max_nonneg by linarith
  have w0: "0 < w" by (simp add: w_def)
  have nz: "R \<noteq> 0" "T \<noteq> 0" using assms(1) R_pos by simp_all
  have up: "- dE / (R * T) \<le> 1 / 2 ^ 53" using a0 by (rule order_trans) simp
  have "math_exp (- dE / (R * T)) = Inr w"
    using no_ovf up by (simp add: math_exp_def w_def)
  then have step: "isomer_loop Emin T (v # vs) (q, num)
                = isomer_loop Emin T vs (q + w, num + dE * w)"
    using nz by (simp add: Let_def py_div_def bindE_def dE_def)
  have "\<forall>v \<in> set vs. Emin \<le> v" using Cons.prems by simp
  from Cons.IH [OF this, of "q + w" "num + dE * w"]
  obtain q' num' where r: "isomer_loop Emin T vs (q + w, num + dE * w) = Inr (q', num')"
    and b1: "q + w + (if Emin \<in> set vs then 1 else 0) \<le> q'"
    and b2: "q + w \<le> q'" and b3: "num + dE * w \<le> num'"
    by blast
  have "0 \<le> dE * w" using dE0 w0 by (intro mult_nonneg_nonneg) simp_all
  then have n: "num \<le> num'" using b3 by linarith
  have q: "q \<le> q'" using b2 w0 by simp
  have "q + (if Emin \<in> set (v # vs) then 1 else 0) \<le> q'"
  proof (cases "v = Emin")
    case True
    then have "w = 1" by (simp add: w_def dE_def)
    then show ?thesis using b2 by simp
  next
    case False
    then show ?thesis using b1 w0 q by (simp split: if_splits)
  qed
  then show ?case using step r q n by simp
qed

text \<open>
  C10. For a non-empty mapping and \<open>T > 0\<close>, \<open>S_isomer_JmolK\<close> returns a value, and
  the value is not negative: the entry of minimal energy contributes the weight 1, so
  \<open>q \<ge> 1\<close>, and every excess energy is \<open>\<ge> 0\<close>.
\<close>

theorem S_isomer_nonneg:
  assumes "E_Eh \<noteq> []" "0 < T"
  shows "\<exists>s. S_isomer_JmolK E_Eh T = Inr s \<and> 0 \<le> s"
proof -
  define vs where "vs = map snd E_Eh"
  define Emin where "Emin = min_list vs"
  have ne: "vs \<noteq> []" using assms(1) by (simp add: vs_def)
  have mn: "Emin = Min (set vs)" unfolding Emin_def using ne by (rule min_list_Min)
  have mem: "Emin \<in> set vs" unfolding mn using ne by (intro Min_in) simp_all
  have low: "\<forall>v \<in> set vs. Emin \<le> v" unfolding mn by simp
  from isomer_loop_bounds [OF assms(2) low, of 0 0] mem
  obtain q num where r: "isomer_loop Emin T vs (0, 0) = Inr (q, num)"
    and q1: "1 \<le> q" and n0: "0 \<le> num"
    by auto
  have rt: "0 < R * T" using assms(2) R_pos by simp
  have lq: "0 \<le> ln q" using q1 by simp
  have av: "0 \<le> num / q / (R * T)" using n0 q1 rt by simp
  have nz: "R \<noteq> 0" "T \<noteq> 0" using assms(2) R_pos by simp_all
  have val: "S_isomer_JmolK E_Eh T = Inr (R * (ln q + num / q / (R * T)))"
    using assms(1) r q1 nz
    by (simp add: S_isomer_JmolK_def Let_def vs_def [symmetric] Emin_def [symmetric]
        bindE_def math_log_def py_div_def)
  have "0 \<le> R * (ln q + num / q / (R * T))"
    using R_pos lq av by (intro mult_nonneg_nonneg) simp_all
  then show ?thesis using val by blast
qed

theorem S_isomer_nonneg_witness:
  "[(''001-a'', - 100), (''002-b'', - 99 :: real)] \<noteq> [] \<and> (0::real) < 300
   \<and> (\<exists>s. S_isomer_JmolK [(''001-a'', - 100), (''002-b'', - 99)] 300 = Inr s \<and> 0 \<le> s)"
  using S_isomer_nonneg [of "[(''001-a'', - 100), (''002-b'', - 99)]" 300] by simp

subsection \<open>The quasi-translational frequency\<close>

text \<open>
  C8. \<open>nu_trans_cm\<close> is claimed to return 0 whenever the cage length is \<open>\<le> 0\<close>, in
  particular for \<open>Vfree \<le> 0\<close>. For \<open>Vfree = 0\<close> it does. For \<open>Vfree < 0\<close> the
  fractional power of the negative base is a complex number in Python 3, and the guard
  \<open>L_m <= 0.0\<close> that was meant to catch the case raises TypeError instead. The
  evaluation at \<open>Vfree = -1\<close>, molecular weight 18, \<open>T = 298.15\<close>:
\<close>

theorem nu_trans_cm_negative_volume_raises:
  "nu_trans_cm (- 1) 18 (29815 / 100) = Inl TypeError"
  by (simp add: nu_trans_cm_def py_pow_def bindE_def Let_def)

text \<open>
  The same for every negative free volume; zero free volume returns 0; and a negative
  free volume is what \<open>vfree_bohr3\<close> returns when the scaled cavity is the smaller one.
\<close>

lemma nu_trans_cm_negative:
  "Vfree < 0 \<Longrightarrow> nu_trans_cm Vfree mw_amu T = Inl TypeError"
  by (simp add: nu_trans_cm_def py_pow_def bindE_def Let_def divide_neg_pos mult_neg_pos)

lemma nu_trans_cm_zero: "nu_trans_cm 0 mw_amu T = Inr 0"
  by (simp add: nu_trans_cm_def py_pow_def bindE_def Let_def)

lemma vfree_bohr3_negative_reachable:
  "\<exists>v. vfree_bohr3 1000 1200 = PyFloat v \<and> v < 0"
proof -
  have "(1000::real) powr (1 / 3) < 1200 powr (1 / 3)"
    by (intro powr_less_mono2) simp_all
  then have "(1000 powr (1 / 3) - 1200 powr (1 / 3)) ^ 3 < (0::real)"
    by (simp add: power3_eq_cube mult_pos_neg mult_neg_neg mult_neg_pos)
  then show ?thesis by (simp add: vfree_bohr3_def py_pow_def)
qed

subsection \<open>The quasi-rotational frequencies\<close>

lemma dot3_self_nonneg: "0 \<le> dot3 v v"
  by (cases v rule: prod_cases3) simp

lemma inertia_from_Bcm_nonzero: "inertia_from_Bcm Bcm \<noteq> 0"
  by (simp add: inertia_from_Bcm_def Let_def h_def c_m_def)

lemma wavenumber_from_I_unclamped:
  "I \<noteq> 0 \<Longrightarrow> wavenumber_from_I k_eff_J 0 I = raw_wavenumber_spec k_eff_J I"
  by (simp add: wavenumber_from_I_def raw_wavenumber_spec_def Let_def)

lemma wavenumber_from_I_floor:
  assumes "I \<noteq> 0" "0 < f"
  shows "wavenumber_from_I k_eff_J f I =
           bindE (wavenumber_from_I k_eff_J 0 I) (\<lambda>a. Inr (clamp_floor_spec f a))"
  using assms
  by (simp add: wavenumber_from_I_def Let_def bindE_def clamp_floor_spec_def split: sum.splits)

lemma nu_rot_cm_degenerate:
  assumes "degenerate_dipole (l0, l1, l2) (g0, g1, g2) alpha_au"
  shows "nu_rot_cm (A_cm, B_cm, C_cm) (l0, l1, l2) (g0, g1, g2) alpha_au T fl use_avg_curv
           = Inr (0, 0, 0)"
  using assms by (auto simp: Let_def)

lemma nu_rot_cm_nondegenerate:
  assumes "\<not> degenerate_dipole (l0, l1, l2) (g0, g1, g2) alpha_au"
  shows "nu_rot_cm (A_cm, B_cm, C_cm) (l0, l1, l2) (g0, g1, g2) alpha_au T fl use_avg_curv =
     bindE (k_eff_J_of (l0, l1, l2) (g0, g1, g2) alpha_au T use_avg_curv) (\<lambda>k_eff_J.
     bindE (wavenumber_from_I k_eff_J fl (inertia_from_Bcm A_cm)) (\<lambda>a.
     bindE (wavenumber_from_I k_eff_J fl (inertia_from_Bcm B_cm)) (\<lambda>b.
     bindE (wavenumber_from_I k_eff_J fl (inertia_from_Bcm C_cm)) (\<lambda>c.
     Inr (a, b, c)))))"
  using assms by (simp add: Let_def)

lemma clamp_floor_spec_ge: "f \<le> clamp_floor_spec f nu"
  by (simp add: clamp_floor_spec_def)

lemma clamped_triple_ge:
  assumes "bindE r (\<lambda>(a, b, c). Inr (clamp_floor_spec f a, clamp_floor_spec f b,
             clamp_floor_spec f c)) = Inr (a', b', c')"
  shows "f \<le> a' \<and> f \<le> b' \<and> f \<le> c'"
proof (cases r)
  case (Inl e)
  then show ?thesis using assms by (simp add: bindE_def)
next
  case (Inr t)
  obtain a b c where t: "t = (a, b, c)" by (cases t rule: prod_cases3)
  show ?thesis using assms clamp_floor_spec_ge [of f] unfolding Inr t
    by (auto simp: bindE_def)
qed

lemma bindE_Inr: "bindE (Inr v) f = f v"
  by (simp add: bindE_def)

lemma small_quot:
  assumes "(a::real) < 1" "1 \<le> d"
  shows "a / d < 1"
proof -
  have "0 < d" using assms(2) by simp
  moreover have "a < d" using assms by simp
  ultimately show ?thesis by (simp add: divide_less_eq_1_pos)
qed

text \<open>
  With the sentinel moment of inertia \<open>1e99\<close> of a zero rotational constant and the
  curvature \<open>Eh_J\<close>, the raw wavenumber is far below 5 (about \<open>3.5e-70\<close>).
\<close>

lemma raw_sentinel_below_5: "(1 / (2 * pi)) * sqrt (Eh_J / 10 ^ 99) / c_cm < 5"
proof -
  have s1: "sqrt (Eh_J / 10 ^ 99) < 1" by (simp add: Eh_J_def)
  have "1 * 1 \<le> (2 * pi) * c_cm"
    using pi_ge_two by (intro mult_mono) (simp_all add: c_cm_def c_m_def)
  then have p: "1 \<le> 2 * pi * c_cm" by simp
  have "sqrt (Eh_J / 10 ^ 99) / (2 * pi * c_cm) < 1"
    using s1 p by (rule small_quot)
  then have "sqrt (Eh_J / 10 ^ 99) / (2 * pi * c_cm) < 5" by simp
  moreover have "(1 / (2 * pi)) * sqrt (Eh_J / 10 ^ 99) / c_cm
                   = sqrt (Eh_J / 10 ^ 99) / (2 * pi * c_cm)"
    by simp
  ultimately show ?thesis by simp
qed

lemma raw_wavenumber_spec_Eh_J:
  assumes "0 \<le> B"
  shows "raw_wavenumber_spec Eh_J (inertia_from_Bcm B)
           = Inr ((1 / (2 * pi)) * sqrt (Eh_J / inertia_from_Bcm B) / c_cm)"
proof -
  have "0 \<le> Eh_J / inertia_from_Bcm B"
    using assms by (simp add: inertia_from_Bcm_def Eh_J_def h_def c_m_def Let_def)
  then show ?thesis
    by (simp add: raw_wavenumber_spec_def math_sqrt_def bindE_def not_less)
qed

text \<open>
  C2. The floor of \<open>nu_rot_cm\<close>, in three parts. On a degenerate input (zero dipole
  difference, or polarizability projection \<open>P \<le> 0\<close>) the function returns
  \<open>(0, 0, 0)\<close> whatever the floor. On every other input, with floor 0 the three raw
  wavenumbers \<open>(1 / 2 pi) sqrt (k_eff / I) / c\<close> are returned unclamped; and with a
  positive floor \<open>f\<close> the call is the call with floor 0 followed by the clamp, on values
  and on errors alike: every wavenumber computed below \<open>f\<close> is reported as exactly
  \<open>f\<close>, so that no returned wavenumber is below \<open>f\<close>.
\<close>

theorem nu_rot_cm_floor:
  "(degenerate_dipole (l0, l1, l2) (g0, g1, g2) alpha_au \<longrightarrow>
      nu_rot_cm (A_cm, B_cm, C_cm) (l0, l1, l2) (g0, g1, g2) alpha_au T f use_avg_curv
        = Inr (0, 0, 0))
   \<and> (\<not> degenerate_dipole (l0, l1, l2) (g0, g1, g2) alpha_au \<longrightarrow>
      nu_rot_cm (A_cm, B_cm, C_cm) (l0, l1, l2) (g0, g1, g2) alpha_au T 0 use_avg_curv =
        bindE (k_eff_J_of (l0, l1, l2) (g0, g1, g2) alpha_au T use_avg_curv) (\<lambda>k.
        bindE (raw_wavenumber_spec k (inertia_from_Bcm A_cm)) (\<lambda>a.
        bindE (raw_wavenumber_spec k (inertia_from_Bcm B_cm)) (\<lambda>b.
        bindE (raw_wavenumber_spec k (inertia_from_Bcm C_cm)) (\<lambda>c.
        Inr (a, b, c))))))
   \<and> (\<not> degenerate_dipole (l0, l1, l2) (g0, g1, g2) alpha_au \<and> 0 < f \<longrightarrow>
      nu_rot_cm (A_cm, B_cm, C_cm) (l0, l1, l2) (g0, g1, g2) alpha_au T f use_avg_curv =
        bindE (nu_rot_cm (A_cm, B_cm, C_cm) (l0, l1, l2) (g0, g1, g2) alpha_au T 0 use_avg_curv)
          (\<lambda>(a, b, c). Inr (clamp_floor_spec f a, clamp_floor_spec f b, clamp_floor_spec f c))
      \<and> (\<forall>a b c.
            nu_rot_cm (A_cm, B_cm, C_cm) (l0, l1, l2) (g0, g1, g2) alpha_au T f use_avg_curv
              = Inr (a, b, c)
            \<longrightarrow> f \<le> a \<and> f \<le> b \<and> f \<le> c))"
proof (intro conjI impI)
  assume "degenerate_dipole (l0, l1, l2) (g0, g1, g2) alpha_au"
  then show "nu_rot_cm (A_cm, B_cm, C_cm) (l0, l1, l2) (g0, g1, g2) alpha_au T f use_avg_curv
               = Inr (0, 0, 0)"
    by (rule nu_rot_cm_degenerate)
next
  assume nd: "\<not> degenerate_dipole (l0, l1, l2) (g0, g1, g2) alpha_au"
  have w: "wavenumber_from_I kk 0 (inertia_from_Bcm B)
             = raw_wavenumber_spec kk (inertia_from_Bcm B)" for kk B
    by (rule wavenumber_from_I_unclamped [OF inertia_from_Bcm_nonzero])
  show "nu_rot_cm (A_cm, B_cm, C_cm) (l0, l1, l2) (g0, g1, g2) alpha_au T 0 use_avg_curv =
        bindE (k_eff_J_of (l0, l1, l2) (g0, g1, g2) alpha_au T use_avg_curv) (\<lambda>k.
        bindE (raw_wavenumber_spec k (inertia_from_Bcm A_cm)) (\<lambda>a.
        bindE (raw_wavenumber_spec k (inertia_from_Bcm B_cm)) (\<lambda>b.
        bindE (raw_wavenumber_spec k (inertia_from_Bcm C_cm)) (\<lambda>c.
        Inr (a, b, c)))))"
    unfolding nu_rot_cm_nondegenerate [OF nd] w ..
next
  assume a: "\<not> degenerate_dipole (l0, l1, l2) (g0, g1, g2) alpha_au \<and> 0 < f"
  then have nd: "\<not> degenerate_dipole (l0, l1, l2) (g0, g1, g2) alpha_au" and f: "0 < f"
    by simp_all
  have w: "wavenumber_from_I kk f (inertia_from_Bcm B) =
           bindE (wavenumber_from_I kk 0 (inertia_from_Bcm B)) (\<lambda>a. Inr (clamp_floor_spec f a))"
    for kk B
    by (rule wavenumber_from_I_floor [OF inertia_from_Bcm_nonzero f])
  show eq: "nu_rot_cm (A_cm, B_cm, C_cm) (l0, l1, l2) (g0, g1, g2) alpha_au T f use_avg_curv =
           bindE (nu_rot_cm (A_cm, B_cm, C_cm) (l0, l1, l2) (g0, g1, g2) alpha_au T 0 use_avg_curv)
             (\<lambda>(a, b, c). Inr (clamp_floor_spec f a, clamp_floor_spec f b, clamp_floor_spec f c))"
    unfolding nu_rot_cm_nondegenerate [OF nd] w
    by (simp add: bindE_def split: sum.splits)
  show "\<forall>a b c.
            nu_rot_cm (A_cm, B_cm, C_cm) (l0, l1, l2) (g0, g1, g2) alpha_au T f use_avg_curv
              = Inr (a, b, c)
            \<longrightarrow> f \<le> a \<and> f \<le> b \<and> f \<le> c"
    unfolding eq by (intro allI impI) (rule clamped_triple_ge)
qed

text \<open>
  The instances: identical dipoles and a negative definite polarizability are degenerate
  and return \<open>(0, 0, 0)\<close> under the floor 5; and a molecule with rotational constants
  \<open>(1, 1/2, 0)\<close>, unit dipole difference and unit polarizability has, by the sentinel
  moment of inertia, a third raw wavenumber below 5, which the call with floor 5 reports
  as exactly 5.
\<close>

theorem nu_rot_cm_floor_witness:
  "degenerate_dipole (0, 0, 1) (0, 0, 1) ((1, 0, 0), (0, 1, 0), (0, 0, 1))
   \<and> nu_rot_cm (1, 1 / 2, 1 / 5) (0, 0, 1) (0, 0, 1) ((1, 0, 0), (0, 1, 0), (0, 0, 1)) 300 5 True
       = Inr (0, 0, 0)
   \<and> degenerate_dipole (1, 0, 0) (0, 0, 0) ((- 1, 0, 0), (0, - 1, 0), (0, 0, - 1))
   \<and> nu_rot_cm (1, 1 / 2, 1 / 5) (1, 0, 0) (0, 0, 0) ((- 1, 0, 0), (0, - 1, 0), (0, 0, - 1))
         300 5 True
       = Inr (0, 0, 0)
   \<and> \<not> degenerate_dipole (1, 0, 0) (0, 0, 0) ((1, 0, 0), (0, 1, 0), (0, 0, 1))
   \<and> (0::real) < 5
   \<and> nu_rot_cm (1, 1 / 2, 0) (1, 0, 0) (0, 0, 0) ((1, 0, 0), (0, 1, 0), (0, 0, 1)) 300 0 False
       = Inr ((1 / (2 * pi)) * sqrt (Eh_J / inertia_from_Bcm 1) / c_cm,
              (1 / (2 * pi)) * sqrt (Eh_J / inertia_from_Bcm (1 / 2)) / c_cm,
              (1 / (2 * pi)) * sqrt (Eh_J / 10 ^ 99) / c_cm)
   \<and> (1 / (2 * pi)) * sqrt (Eh_J / 10 ^ 99) / c_cm < 5
   \<and> nu_rot_cm (1, 1 / 2, 0) (1, 0, 0) (0, 0, 0) ((1, 0, 0), (0, 1, 0), (0, 0, 1)) 300 5 False
       = Inr (clamp_floor_spec 5 ((1 / (2 * pi)) * sqrt (Eh_J / inertia_from_Bcm 1) / c_cm),
              clamp_floor_spec 5 ((1 / (2 * pi)) * sqrt (Eh_J / inertia_from_Bcm (1 / 2)) / c_cm),
              5)
   \<and> 5 \<le> clamp_floor_spec 5 ((1 / (2 * pi)) * sqrt (Eh_J / inertia_from_Bcm 1) / c_cm)
   \<and> 5 \<le> clamp_floor_spec 5 ((1 / (2 * pi)) * sqrt (Eh_J / inertia_from_Bcm (1 / 2)) / c_cm)"
proof -
  let ?id = "((1, 0, 0), (0, 1, 0), (0, 0, 1)) :: mat3"
  let ?neg = "((- 1, 0, 0), (0, - 1, 0), (0, 0, - 1)) :: mat3"
  let ?ra = "(1 / (2 * pi)) * sqrt (Eh_J / inertia_from_Bcm 1) / c_cm"
  let ?rb = "(1 / (2 * pi)) * sqrt (Eh_J / inertia_from_Bcm (1 / 2)) / c_cm"
  let ?rc = "(1 / (2 * pi)) * sqrt (Eh_J / 10 ^ 99) / c_cm"
  have d1: "degenerate_dipole (0, 0, 1) (0, 0, 1) ?id" by (simp add: norm3_def)
  have d2: "degenerate_dipole (1, 0, 0) (0, 0, 0) ?neg" by (simp add: norm3_def)
  have nd: "\<not> degenerate_dipole (1, 0, 0) (0, 0, 0) ?id" by (simp add: norm3_def)
  have f: "(0::real) < 5" by simp
  have k: "k_eff_J_of (1, 0, 0) (0, 0, 0) ?id 300 False = Inr Eh_J" by (simp add: norm3_def)
  have raw1: "raw_wavenumber_spec Eh_J (inertia_from_Bcm 1) = Inr ?ra"
    by (rule raw_wavenumber_spec_Eh_J) simp
  have raw2: "raw_wavenumber_spec Eh_J (inertia_from_Bcm (1 / 2)) = Inr ?rb"
    by (rule raw_wavenumber_spec_Eh_J) simp
  have raw0: "raw_wavenumber_spec Eh_J (inertia_from_Bcm 0) = Inr ?rc"
    using raw_wavenumber_spec_Eh_J [of 0] by (simp add: inertia_from_Bcm_def)
  note inst = nu_rot_cm_floor [of 1 0 0 0 0 0 ?id 1 "1 / 2" 0 300 5 False]
  have "nu_rot_cm (1, 1 / 2, 0) (1, 0, 0) (0, 0, 0) ?id 300 0 False =
        bindE (k_eff_J_of (1, 0, 0) (0, 0, 0) ?id 300 False) (\<lambda>k.
        bindE (raw_wavenumber_spec k (inertia_from_Bcm 1)) (\<lambda>a.
        bindE (raw_wavenumber_spec k (inertia_from_Bcm (1 / 2))) (\<lambda>b.
        bindE (raw_wavenumber_spec k (inertia_from_Bcm 0)) (\<lambda>c.
        Inr (a, b, c)))))"
    using inst nd by blast
  then have z: "nu_rot_cm (1, 1 / 2, 0) (1, 0, 0) (0, 0, 0) ?id 300 0 False = Inr (?ra, ?rb, ?rc)"
    by (simp only: k bindE_Inr raw1 raw2 raw0)
  have c: "clamp_floor_spec 5 ?rc = 5"
    using raw_sentinel_below_5 by (simp add: clamp_floor_spec_def)
  have "nu_rot_cm (1, 1 / 2, 0) (1, 0, 0) (0, 0, 0) ?id 300 5 False =
          bindE (nu_rot_cm (1, 1 / 2, 0) (1, 0, 0) (0, 0, 0) ?id 300 0 False)
            (\<lambda>(a, b, c). Inr (clamp_floor_spec 5 a, clamp_floor_spec 5 b, clamp_floor_spec 5 c))"
    using inst nd f by blast
  then have t: "nu_rot_cm (1, 1 / 2, 0) (1, 0, 0) (0, 0, 0) ?id 300 5 False
             = Inr (clamp_floor_spec 5 ?ra, clamp_floor_spec 5 ?rb, 5)"
    by (simp only: z bindE_Inr prod.case c)
  have "\<forall>a b c. nu_rot_cm (1, 1 / 2, 0) (1, 0, 0) (0, 0, 0) ?id 300 5 False = Inr (a, b, c)
          \<longrightarrow> 5 \<le> a \<and> 5 \<le> b \<and> 5 \<le> c"
    using inst nd f by blast
  then have g: "5 \<le> clamp_floor_spec 5 ?ra \<and> 5 \<le> clamp_floor_spec 5 ?rb"
    using t by blast
  have g1: "nu_rot_cm (1, 1 / 2, 1 / 5) (0, 0, 1) (0, 0, 1) ?id 300 5 True = Inr (0, 0, 0)"
    using nu_rot_cm_floor [of 0 0 1 0 0 1 ?id 1 "1 / 2" "1 / 5" 300 5 True] d1 by blast
  have g2: "nu_rot_cm (1, 1 / 2, 1 / 5) (1, 0, 0) (0, 0, 0) ?neg 300 5 True = Inr (0, 0, 0)"
    using nu_rot_cm_floor [of 1 0 0 0 0 0 ?neg 1 "1 / 2" "1 / 5" 300 5 True] d2 by blast
  show ?thesis using d1 d2 nd f z t g g1 g2 raw_sentinel_below_5 by blast
qed

text \<open>
  The claim as stated adds that no returned wavenumber is below the floor. The two
  degenerate guards return \<open>(0, 0, 0)\<close> whatever the floor: with identical dipoles and
  floor 5 the three returned wavenumbers are 0.
\<close>

theorem nu_rot_cm_degenerate_below_floor:
  "nu_rot_cm (1, 1 / 2, 1 / 5) (1, 2, 3) (1, 2, 3) ((1, 0, 0), (0, 1, 0), (0, 0, 1)) (29815 / 100) 5 True
     = Inr (0, 0, 0) \<and> (0::real) < 5"
  by (simp add: norm3_def)

end
